theory Spec2Isabelle
  imports Main
begin

section \<open>Python values shared by the modules\<close>

text \<open>
  A Python \<open>str\<close> is modelled as a \<open>string\<close> holding its UTF-8 bytes, exactly as the
  source files store their literals. Exceptions are values: a function that can
  raise returns \<open>py_error + 'a\<close>, with \<open>Inl\<close> for the exception.
\<close>

datatype py_error =
    Exception string
  | OverflowError string
  | ValueError string
  | OSError string
  | AttributeError string
  | MultipleObjectsReturned

text \<open>\<open>s.startswith(p)\<close> of Python.\<close>

definition startswith :: "string \<Rightarrow> string \<Rightarrow> bool" where
  "startswith s p = (take (length p) s = p)"

text \<open>
  A dict display \<open>{k1: v1, k2: v2, ...}\<close> is evaluated left to right, so a key that
  is written twice keeps the value written last.
\<close>

definition dict_display :: "('k \<times> 'v) list \<Rightarrow> 'k \<rightharpoonup> 'v" where
  "dict_display items = map_of (rev items)"

section \<open>Tier catalogue: \<open>alumni/fields/tier.py\<close>\<close>

text \<open>
  The class constants of \<open>TierField\<close>. The three product identifiers are read from
  \<open>MemberManagement.settings\<close>, which is configuration: they are the fields of
  \<open>settings\<close>, together with the other configuration values the views read.
\<close>

definition STARTER :: string where "STARTER = ''st''"
definition CONTRIBUTOR :: string where "CONTRIBUTOR = ''co''"
definition PATRON :: string where "PATRON = ''pa''"

record settings =
  STRIPE_CONTRIBUTOR_PRODUCT_ID :: string
  STRIPE_PATRON_PRODUCT_ID :: string
  STRIPE_STARTER_PRODUCT_ID :: string
  STRIPE_WEBHOOK_SECRET :: string
  LOGIN_REDIRECT_URL :: string

definition STRIPE_ID_TO_TIER_items :: "settings \<Rightarrow> (string \<times> string) list" where
  "STRIPE_ID_TO_TIER_items cfg =
     [(''contributor-membership'', CONTRIBUTOR),
      (''patron-membership'', PATRON),
      (''starter-membership'', STARTER),
      (STRIPE_CONTRIBUTOR_PRODUCT_ID cfg, CONTRIBUTOR),
      (STRIPE_PATRON_PRODUCT_ID cfg, PATRON),
      (STRIPE_STARTER_PRODUCT_ID cfg, STARTER)]"

definition STRIPE_ID_TO_TIER :: "settings \<Rightarrow> string \<rightharpoonup> string" where
  "STRIPE_ID_TO_TIER cfg = dict_display (STRIPE_ID_TO_TIER_items cfg)"

text \<open>\<open>TierField.STRIPE_ID_TO_TIER.get(stripe_id, "Unknown")\<close>.\<close>

definition get_tier_from_stripe_id :: "settings \<Rightarrow> string \<Rightarrow> string" where
  "get_tier_from_stripe_id cfg stripe_id =
     (case STRIPE_ID_TO_TIER cfg stripe_id of Some t \<Rightarrow> t | None \<Rightarrow> ''Unknown'')"

definition example_settings :: settings where
  "example_settings =
     \<lparr>STRIPE_CONTRIBUTOR_PRODUCT_ID = ''prod_co'', STRIPE_PATRON_PRODUCT_ID = ''prod_pa'',
      STRIPE_STARTER_PRODUCT_ID = ''prod_st'', STRIPE_WEBHOOK_SECRET = ''whsec'',
      LOGIN_REDIRECT_URL = ''/''\<rparr>"

section \<open>Number formatting of Python\<close>

text \<open>\<open>str(n)\<close> for an \<open>int\<close>: decimal digits, with a minus sign when negative.\<close>

definition digit_char :: "nat \<Rightarrow> char" where
  "digit_char d = ''0123456789'' ! (d mod 10)"

function str_nat :: "nat \<Rightarrow> string" where
  "str_nat n = (if n < 10 then [digit_char n] else str_nat (n div 10) @ [digit_char (n mod 10)])"
  by pat_completeness auto
termination
  by (relation "measure id") auto

declare str_nat.simps [simp del]

definition str_int :: "int \<Rightarrow> string" where
  "str_int i = (if i < 0 then CHR ''-'' # str_nat (nat (- i)) else str_nat (nat i))"

text \<open>
  A finite binary64 value of Python's \<open>float\<close>: \<open>Double neg m e\<close> stands for the number
  \<open>m * 2 ^ e\<close>, negated when \<open>neg\<close>; a non-zero value has \<open>2 ^ 52 \<le> m \<le> 2 ^ 53\<close>.
\<close>

datatype double = Double bool int int

text \<open>\<open>n.bit_length()\<close>: the number of binary digits of a natural number.\<close>

function bit_length :: "nat \<Rightarrow> nat" where
  "bit_length n = (if n = 0 then 0 else Suc (bit_length (n div 2)))"
  by pat_completeness auto
termination
  by (relation "measure id") auto

declare bit_length.simps [simp del]

text \<open>The integer nearest to \<open>a / b\<close> for \<open>b > 0\<close>, a tie going to the even one.\<close>

definition round_half_even_div :: "int \<Rightarrow> int \<Rightarrow> int" where
  "round_half_even_div a b =
     (let q = a div b; r = a mod b
      in if 2 * r < b then q else if 2 * r > b then q + 1 else if even q then q else q + 1)"

text \<open>
  The binary64 value nearest to \<open>a / b\<close> for \<open>a > 0\<close> and \<open>b > 0\<close> (round to nearest,
  ties to even), as mantissa and exponent: \<open>k\<close> is the integer with
  \<open>2 ^ k \<le> a / b < 2 ^ (k + 1)\<close>, and the mantissa keeps 53 bits.
\<close>

definition nearest_double :: "int \<Rightarrow> int \<Rightarrow> int \<times> int" where
  "nearest_double a b =
     (let d = int (bit_length (nat a)) - int (bit_length (nat b));
          k = (if (if 0 \<le> d then b * 2 ^ nat d \<le> a else b \<le> a * 2 ^ nat (- d)) then d else d - 1);
          e = k - 52
      in (if 0 \<le> e then round_half_even_div a (b * 2 ^ nat e)
          else round_half_even_div (a * 2 ^ nat (- e)) b, e))"

text \<open>
  \<open>amount / 100\<close> for an \<open>int\<close> amount: true division rounds the exact quotient
  correctly and raises \<open>OverflowError\<close> when it does not fit a float.
\<close>

definition truediv_100 :: "int \<Rightarrow> py_error + double" where
  "truediv_100 n =
     (if n = 0 then Inr (Double False 0 0)
      else (let (m, e) = nearest_double \<bar>n\<bar> 100
            in if 971 < e \<or> (e = 971 \<and> m = 2 ^ 53)
               then Inl (OverflowError ''integer division result too large for a float'')
               else Inr (Double (n < 0) m e)))"

text \<open>
  \<open>"%0.2f" % x\<close>: the value rounded correctly to two decimals (ties of the exact
  binary value to even), written with a sign, the integer part, a point and two digits.
\<close>

definition format_0_2f :: "double \<Rightarrow> string" where
  "format_0_2f x =
     (case x of Double neg m e \<Rightarrow>
        (let h = nat (if 0 \<le> e then m * 2 ^ nat e * 100
                      else round_half_even_div (m * 100) (2 ^ nat (- e)))
         in (if neg then ''-'' else '''') @ str_nat (h div 100) @ ''.''
            @ [digit_char (h mod 100 div 10), digit_char (h mod 10)]))"

text \<open>
  The exact decimal text of \<open>n / 100\<close> with two decimals, for a number \<open>n\<close> of minor
  units: what the formatting is compared with.
\<close>

definition decimal_2 :: "nat \<Rightarrow> string" where
  "decimal_2 n = str_nat (n div 100) @ ''.'' @ [digit_char (n mod 100 div 10), digit_char (n mod 10)]"

section \<open>Invoice table: \<open>PaymentsTableMixin\<close> of \<open>payments/views.py\<close>\<close>

text \<open>
  An invoice line as \<open>format_description\<close> reads it: \<open>line.description\<close> (which may be
  \<open>None\<close>), \<open>line.type\<close>, \<open>line.plan.name\<close>, \<open>line.period.start\<close>, \<open>line.period.end\<close> and
  \<open>line.quantity\<close>.
\<close>

record plan =
  plan_name :: string

record period =
  period_start :: int
  period_end :: int

record invoice_line =
  description :: "string option"
  line_type :: string
  plan :: plan
  period :: period
  quantity :: int

text \<open>
  \<open>format_datetime\<close> hands the epoch to \<open>datetime.fromtimestamp\<close>, which raises
  (\<open>ValueError\<close>, \<open>OverflowError\<close> or \<open>OSError\<close>) for an epoch outside the range it
  can convert, and hands the result to Django's \<open>formats.date_format\<close>. Both belong to
  the libraries (time zone, locale), so they are the two fields of \<open>date_library\<close>: the
  conversion with its error, and the rendering under a format name.
\<close>

record date_library =
  fromtimestamp :: "int \<Rightarrow> py_error + int"
  date_format :: "int \<Rightarrow> string \<Rightarrow> string"

definition format_datetime :: "date_library \<Rightarrow> int \<Rightarrow> string \<Rightarrow> py_error + string" where
  "format_datetime lib epoch fmt =
     (case fromtimestamp lib epoch of
        Inl err \<Rightarrow> Inl err
      | Inr date_joined \<Rightarrow> Inr (date_format lib date_joined fmt))"

text \<open>
  The arguments of \<open>str.format\<close> are evaluated from left to right: the start of the
  period is rendered before its end, and the first error is the one raised.
\<close>

definition format_description :: "date_library \<Rightarrow> invoice_line \<Rightarrow> py_error + string" where
  "format_description lib line =
     (case description line of
        Some d \<Rightarrow> Inr d
      | None \<Rightarrow>
          if line_type line = ''subscription'' then
            (case format_datetime lib (period_start (period line)) ''DATE_FORMAT'' of
               Inl err \<Rightarrow> Inl err
             | Inr started \<Rightarrow>
                 (case format_datetime lib (period_end (period line)) ''DATE_FORMAT'' of
                    Inl err \<Rightarrow> Inl err
                  | Inr ended \<Rightarrow>
                      (let name = plan_name (plan line) @ '' ('' @ started @ '' - '' @ ended @ '')''
                       in Inr (str_int (quantity line) @ '' x '' @ name))))
          else Inl (Exception ''Non-subscription without description''))"

text \<open>
  Reading a decimal text back: the value of a digit, and of a row of digits. The text
  that \<open>str\<close> gives for the quantity is measured against it.
\<close>

definition digit_value :: "char \<Rightarrow> nat" where
  "digit_value c = (case map_of (zip ''0123456789'' [0 ..< 10]) c of Some d \<Rightarrow> d | None \<Rightarrow> 0)"

definition decimal_value :: "string \<Rightarrow> nat" where
  "decimal_value s = foldl (\<lambda>acc c. 10 * acc + digit_value c) 0 s"

text \<open>
  The euro sign U+20AC in UTF-8, and the three characters U+00E2, U+201A, U+00AC that
  the \<open>eur\<close> format literal of \<open>format_total\<close> holds after \<open>%0.2f\<close> and the space (bytes
  \<open>C3 A2 E2 80 9A C2 AC\<close> of \<open>payments/views.py\<close>).
\<close>

definition EURO_SIGN :: string where
  "EURO_SIGN = [CHR 0xE2, CHR 0x82, CHR 0xAC]"

definition eur_literal_suffix :: string where
  "eur_literal_suffix = [CHR 0xC3, CHR 0xA2, CHR 0xE2, CHR 0x80, CHR 0x9A, CHR 0xC2, CHR 0xAC]"

text \<open>
  \<open>format_total\<close> is called with \<open>iv["total"][0]\<close>, the integer number of minor units
  the provider reports, and the currency code.
\<close>

definition format_total :: "int \<Rightarrow> string \<Rightarrow> py_error + string" where
  "format_total amount cur =
     (if cur = ''eur'' then
        (case truediv_100 amount of
           Inl err \<Rightarrow> Inl err
         | Inr x \<Rightarrow> Inr (format_0_2f x @ '' '' @ eur_literal_suffix))
      else if cur = ''usd'' then
        (case truediv_100 amount of
           Inl err \<Rightarrow> Inl err
         | Inr x \<Rightarrow> Inr (format_0_2f x @ '' $''))
      else Inl (Exception (''unknown currency '' @ cur)))"

section \<open>Database rows, the payment provider and the request\<close>

text \<open>
  The rows of \<open>payments/models.py\<close> with the fields the views read and write. An alumni
  is named by its key, a point in time is a number of seconds, and a nullable column is
  an \<open>option\<close>.
\<close>

type_synonym alumni = nat

record MembershipInformation =
  mem_member :: alumni
  mem_tier :: string
  mem_customer :: "string option"

record SubscriptionInformation =
  sub_member :: alumni
  sub_start :: "int option"
  sub_end :: "int option"
  sub_tier :: string

text \<open>
  A \<open>stripe.PaymentIntent\<close> as the webhook reads it (its \<open>id\<close> and the rest of its
  content), the snapshot stored in the \<open>data\<close> column, and an event with \<open>event.type\<close>
  and \<open>event.data.object\<close>.
\<close>

record payment_intent =
  pi_id :: string
  pi_fields :: "(string \<times> string) list"

type_synonym snapshot = "(string \<times> string) list"

record event =
  ev_type :: string
  ev_object :: payment_intent

text \<open>
  The calls that reach the payment provider, in the order they are made: the trace
  \<open>provider_calls\<close> of the world records them.
\<close>

datatype provider_call = CreateCustomer alumni | SyncFromStripe alumni

record world =
  memberships :: "MembershipInformation list"
  subscriptions :: "SubscriptionInformation list"
  payment_intents :: "(string \<times> snapshot) list"
  provider_calls :: "provider_call list"
  stdout :: "string list"

text \<open>
  The module \<open>payments/stripewrapper.py\<close> is the adapter of the provider; what its
  functions answer is decided outside the repository, so the views take them as
  parameters. Each answers with a pair \<open>(result, error)\<close>; the error is a text or
  \<open>None\<close>.
\<close>

record stripewrapper =
  create_customer :: "alumni \<Rightarrow> string option \<times> string option"
  make_stripe_event :: "string \<Rightarrow> string option \<Rightarrow> string \<Rightarrow> event option \<times> string option"
  pi_to_dict :: "payment_intent \<Rightarrow> snapshot"

text \<open>The truth value Python gives an error that is \<open>None\<close> or a text: \<open>if error:\<close>.\<close>

definition truthy :: "string option \<Rightarrow> bool" where
  "truthy x = (case x of None \<Rightarrow> False | Some s \<Rightarrow> s \<noteq> [])"

text \<open>\<open>str(error)\<close>, the text \<open>print(error)\<close> writes.\<close>

definition str_of_error :: "string option \<Rightarrow> string" where
  "str_of_error x = (case x of None \<Rightarrow> ''None'' | Some s \<Rightarrow> s)"

text \<open>A form with the tier the user chose and the errors attached to it so far.\<close>

record form =
  form_tier :: string
  form_errors :: "(string option \<times> string) list"

definition add_error :: "form \<Rightarrow> string option \<Rightarrow> string \<Rightarrow> form" where
  "add_error f field msg = f\<lparr>form_errors := form_errors f @ [(field, msg)]\<rparr>"

section \<open>Tier selection: \<open>SignupView.form_valid\<close>\<close>

text \<open>
  Modelled from the spec: \<open>SubscriptionInformation.create_starter_subscription\<close> is
  a class method of \<open>payments/models.py\<close>, which is not among the sources. The spec says
  that the starter tier synthesizes a subscription record directly upon tier selection,
  bypassing the payment provider entirely, and that the record is active at once: the
  model inserts one open-ended row of the starter tier that starts now, and makes no
  provider call.
\<close>

definition create_starter_subscription :: "int \<Rightarrow> alumni \<Rightarrow> world \<Rightarrow> world" where
  "create_starter_subscription now a w =
     w\<lparr>subscriptions := subscriptions w
         @ [\<lparr>sub_member = a, sub_start = Some now, sub_end = None, sub_tier = STARTER\<rparr>]\<rparr>"

definition provider_error_message :: string where
  "provider_error_message =
     ''Something went wrong when talking to our payment service provider. Please try again later or contact support. ''"

text \<open>
  \<open>form_valid\<close> of the signup view, for the alumni of the request: the result is the
  value returned (the stored instance or \<open>None\<close>), the form and the world afterwards.
\<close>

definition SignupView_form_valid ::
  "stripewrapper \<Rightarrow> int \<Rightarrow> alumni \<Rightarrow> form \<Rightarrow> world
     \<Rightarrow> MembershipInformation option \<times> form \<times> world" where
  "SignupView_form_valid sw now a f w =
     (let (customer, err) = create_customer sw a;
          w1 = w\<lparr>provider_calls := provider_calls w @ [CreateCustomer a]\<rparr>
      in case err of
           Some e \<Rightarrow> (None, add_error f None provider_error_message, w1)
         | None \<Rightarrow>
             (let instance = \<lparr>mem_member = a, mem_tier = form_tier f, mem_customer = customer\<rparr>;
                  w2 = w1\<lparr>memberships := memberships w1 @ [instance]\<rparr>;
                  w3 = (if mem_tier instance = STARTER
                        then create_starter_subscription now a w2 else w2)
              in (Some instance, f, w3)))"

section \<open>Subscription setup: \<open>SubscribeView.should_setup_component\<close>\<close>

text \<open>
  The activity test the view applies to the synchronised record: \<open>start\<close> is set and
  not after now, and \<open>end\<close> is unset or not before now.
\<close>

definition is_active :: "int \<Rightarrow> SubscriptionInformation \<Rightarrow> bool" where
  "is_active now s =
     (case sub_start s of
        None \<Rightarrow> False
      | Some st \<Rightarrow> st \<le> now \<and> (case sub_end s of None \<Rightarrow> True | Some en \<Rightarrow> now \<le> en))"

text \<open>
  The query \<open>filter(start__lte=now, end__gte=now)\<close>: a comparison with a \<open>NULL\<close> column
  is not true in SQL, so a row matches only when both columns are set.
\<close>

definition filter_start_lte_end_gte :: "int \<Rightarrow> SubscriptionInformation \<Rightarrow> bool" where
  "filter_start_lte_end_gte now s =
     (case sub_start s of
        None \<Rightarrow> False
      | Some st \<Rightarrow> st \<le> now \<and> (case sub_end s of None \<Rightarrow> False | Some en \<Rightarrow> now \<le> en))"

text \<open>
  \<open>SubscriptionInformation.sync_from_stripe\<close> belongs to \<open>payments/models.py\<close> and asks
  the provider: the parameter \<open>sync\<close> gives the record it returns (or \<open>None\<close>) and the
  subscription table it leaves; the call is added to the trace.
\<close>

definition sync_from_stripe ::
  "(alumni \<Rightarrow> SubscriptionInformation list
      \<Rightarrow> SubscriptionInformation option \<times> SubscriptionInformation list)
   \<Rightarrow> alumni \<Rightarrow> world \<Rightarrow> SubscriptionInformation option \<times> world" where
  "sync_from_stripe sync a w =
     (let (r, subs) = sync a (subscriptions w)
      in (r, w\<lparr>subscriptions := subs,
               provider_calls := provider_calls w @ [SyncFromStripe a]\<rparr>))"

definition should_setup_component ::
  "(alumni \<Rightarrow> SubscriptionInformation list
      \<Rightarrow> SubscriptionInformation option \<times> SubscriptionInformation list)
   \<Rightarrow> int \<Rightarrow> alumni \<Rightarrow> world \<Rightarrow> bool \<times> world" where
  "should_setup_component sync now a w =
     (if list_ex (\<lambda>s. sub_member s = a \<and> filter_start_lte_end_gte now s) (subscriptions w)
      then (False, w)
      else (let (subscription, w') = sync_from_stripe sync a w
            in case subscription of
                 None \<Rightarrow> (True, w')
               | Some s \<Rightarrow> if is_active now s then (False, w') else (True, w')))"

section \<open>Webhook: \<open>stripe_webhook\<close>\<close>

record request =
  body :: string
  META :: "string \<rightharpoonup> string"

datatype http_response = HttpResponse | HttpResponseBadRequest

definition status_code :: "http_response \<Rightarrow> nat" where
  "status_code r = (case r of HttpResponse \<Rightarrow> 200 | HttpResponseBadRequest \<Rightarrow> 400)"

text \<open>
  \<open>PaymentIntent.objects.update_or_create(stripe_id=..., defaults={"data": ...})\<close> of
  Django: the rows with that \<open>stripe_id\<close> are looked up; none inserts a row, one has its
  \<open>data\<close> replaced, more than one raises \<open>MultipleObjectsReturned\<close>.
\<close>

definition update_or_create ::
  "string \<Rightarrow> snapshot \<Rightarrow> (string \<times> snapshot) list \<Rightarrow> py_error + (string \<times> snapshot) list" where
  "update_or_create sid d rows =
     (case filter (\<lambda>r. fst r = sid) rows of
        [] \<Rightarrow> Inr (rows @ [(sid, d)])
      | [r] \<Rightarrow> Inr (map (\<lambda>r. if fst r = sid then (sid, d) else r) rows)
      | _ \<Rightarrow> Inl MultipleObjectsReturned)"

definition stripe_webhook ::
  "stripewrapper \<Rightarrow> settings \<Rightarrow> request \<Rightarrow> world \<Rightarrow> py_error + (http_response \<times> world)" where
  "stripe_webhook sw cfg req w =
     (let payload = body req;
          sig_header = META req ''HTTP_STRIPE_SIGNATURE'';
          (ev, error) = make_stripe_event sw payload sig_header (STRIPE_WEBHOOK_SECRET cfg)
      in if truthy error then
           Inr (HttpResponseBadRequest, w\<lparr>stdout := stdout w @ [str_of_error error]\<rparr>)
         else
           (case ev of
              None \<Rightarrow> Inl (AttributeError ''type'')
            | Some e \<Rightarrow>
                if startswith (ev_type e) ''payment_intent.'' then
                  (let payment_intent = ev_object e
                   in case update_or_create (pi_id payment_intent)
                             (pi_to_dict sw payment_intent) (payment_intents w) of
                        Inl exn \<Rightarrow> Inl exn
                      | Inr rows \<Rightarrow> Inr (HttpResponse, w\<lparr>payment_intents := rows\<rparr>))
                else Inr (HttpResponse, w)))"

section \<open>Login redirect: \<open>email_token_login\<close>\<close>

text \<open>
  Modelled from the spec: the view \<open>email_token_login\<close> of \<open>custom_auth/views.py\<close> is
  not among the sources (only its test \<open>test_02_login_redirect.py\<close> is). The spec's
  validator takes the candidate target of the \<open>next\<close> parameter: absent or empty, the
  configured default is used; a bare path (no scheme and no host), or a target that
  resolves to the origin (scheme and host) of the application, is used as it is; a target
  that resolves to another origin is discarded for the configured default.

  What a target resolves to is read off its text as a browser reads it: white space and
  control characters in front are skipped and a backslash counts as a slash; a target has
  a scheme when a colon follows its first segment, and a host when two slashes follow the
  scheme or stand in front (the scheme is then the application's). A target with neither
  is a bare path; a target with a scheme and no host resolves to no origin of the
  application. Schemes and hosts are compared without regard to case.
\<close>

definition url_space :: "char \<Rightarrow> bool" where
  "url_space c = ((of_char c :: nat) \<le> 32)"

definition is_slash :: "char \<Rightarrow> bool" where
  "is_slash c = (c = CHR ''/'' \<or> c = CHR 0x5C)"

definition url_delimiter :: "char \<Rightarrow> bool" where
  "url_delimiter c = (is_slash c \<or> c = CHR ''?'' \<or> c = CHR ''#'')"

definition lstrip :: "string \<Rightarrow> string" where
  "lstrip t = dropWhile url_space t"

definition two_slashes :: "string \<Rightarrow> bool" where
  "two_slashes t = (case t of a # b # _ \<Rightarrow> is_slash a \<and> is_slash b | _ \<Rightarrow> False)"

definition scheme_prefix :: "string \<Rightarrow> string" where
  "scheme_prefix t = takeWhile (\<lambda>c. \<not> url_delimiter c \<and> c \<noteq> CHR '':'') t"

definition has_scheme :: "string \<Rightarrow> bool" where
  "has_scheme t =
     (scheme_prefix t \<noteq> [] \<and> startswith (drop (length (scheme_prefix t)) t) '':'')"

definition authority :: "string \<Rightarrow> string" where
  "authority t = takeWhile (\<lambda>c. \<not> url_delimiter c) t"

datatype reference = BarePath | NoHost string | Origin string string

definition resolve_reference :: "string \<times> string \<Rightarrow> string \<Rightarrow> reference" where
  "resolve_reference app target =
     (let t = lstrip target;
          after = drop (length (scheme_prefix t) + 1) t
      in if has_scheme t then
           (if two_slashes after then Origin (scheme_prefix t) (authority (drop 2 after))
            else NoHost (scheme_prefix t))
         else if two_slashes t then Origin (fst app) (authority (drop 2 t))
         else BarePath)"

definition ascii_lower :: "char \<Rightarrow> char" where
  "ascii_lower c =
     (case map_of (zip ''ABCDEFGHIJKLMNOPQRSTUVWXYZ'' ''abcdefghijklmnopqrstuvwxyz'') c of
        Some l \<Rightarrow> l
      | None \<Rightarrow> c)"

definition same_origin :: "string \<times> string \<Rightarrow> string \<times> string \<Rightarrow> bool" where
  "same_origin a b =
     (map ascii_lower (fst a) = map ascii_lower (fst b)
      \<and> map ascii_lower (snd a) = map ascii_lower (snd b))"

definition login_redirect_target ::
  "settings \<Rightarrow> string \<times> string \<Rightarrow> string option \<Rightarrow> string" where
  "login_redirect_target cfg app nxt =
     (case nxt of
        None \<Rightarrow> LOGIN_REDIRECT_URL cfg
      | Some target \<Rightarrow>
          if target = [] then LOGIN_REDIRECT_URL cfg
          else (case resolve_reference app target of
                  BarePath \<Rightarrow> target
                | NoHost scheme \<Rightarrow> LOGIN_REDIRECT_URL cfg
                | Origin scheme host \<Rightarrow>
                    if same_origin (scheme, host) app then target
                    else LOGIN_REDIRECT_URL cfg))"

text \<open>
  The shapes of a target the properties speak of: the text of a scheme (no delimiter and
  no colon in it, no white space in front), the text of a host (no delimiter in it), what
  may follow a host (nothing, or a delimiter), and white space only.
\<close>

definition scheme_text :: "string \<Rightarrow> bool" where
  "scheme_text s =
     (s \<noteq> [] \<and> \<not> url_space (hd s) \<and> list_all (\<lambda>c. \<not> url_delimiter c \<and> c \<noteq> CHR '':'') s)"

definition host_text :: "string \<Rightarrow> bool" where
  "host_text h = list_all (\<lambda>c. \<not> url_delimiter c) h"

definition host_end :: "string \<Rightarrow> bool" where
  "host_end r = (case r of [] \<Rightarrow> True | c # _ \<Rightarrow> url_delimiter c)"

definition all_space :: "string \<Rightarrow> bool" where
  "all_space ws = list_all url_space ws"

section \<open>Concrete inputs\<close>

definition example_app :: "string \<times> string" where
  "example_app = (''https'', ''members.example.org'')"

text \<open>
  A date library of a process whose local time is UTC: \<open>fromtimestamp\<close> raises outside
  the years 1 to 9999. The epoch 253402473600 (3 January of the year 10000 in UTC) lies in
  the year 10000 in every time zone.
\<close>

definition example_date_library :: date_library where
  "example_date_library =
     \<lparr>fromtimestamp = (\<lambda>epoch.
         if epoch < - 62135596800 then Inl (ValueError ''year 0 is out of range'')
         else if 253402300799 < epoch then Inl (ValueError ''year 10000 is out of range'')
         else Inr epoch),
      date_format = (\<lambda>d fmt. if d = 0 then ''Jan. 1, 1970'' else ''Jan. 31, 1970'')\<rparr>"

definition example_subscription_line :: invoice_line where
  "example_subscription_line =
     \<lparr>description = None, line_type = ''subscription'',
      plan = \<lparr>plan_name = ''Patron''\<rparr>,
      period = \<lparr>period_start = 0, period_end = 2592000\<rparr>, quantity = 1\<rparr>"

definition example_item_line :: invoice_line where
  "example_item_line = example_subscription_line\<lparr>line_type := ''invoiceitem''\<rparr>"

definition example_late_line :: invoice_line where
  "example_late_line =
     example_subscription_line\<lparr>period := \<lparr>period_start = 0, period_end = 253402473600\<rparr>\<rparr>"

definition empty_world :: world where
  "empty_world =
     \<lparr>memberships = [], subscriptions = [], payment_intents = [], provider_calls = [],
      stdout = []\<rparr>"

definition example_form :: form where
  "example_form = \<lparr>form_tier = ''st'', form_errors = []\<rparr>"

definition example_event :: event where
  "example_event =
     \<lparr>ev_type = ''payment_intent.succeeded'',
      ev_object = \<lparr>pi_id = ''pi_1'', pi_fields = [(''status'', ''succeeded'')]\<rparr>\<rparr>"

definition example_other_event :: event where
  "example_other_event = example_event\<lparr>ev_type := ''invoice.paid''\<rparr>"

text \<open>
  A provider adapter that creates customers, and verifies exactly the two payloads
  \<open>pi\<close> and \<open>inv\<close>, signed \<open>good\<close>, with the configured secret.
\<close>

definition working_provider :: stripewrapper where
  "working_provider =
     \<lparr>create_customer = (\<lambda>a. (Some ''cus_1'', None)),
      make_stripe_event = (\<lambda>payload sig_header secret.
         if sig_header = Some ''good'' \<and> secret = ''whsec'' \<and> payload = ''pi''
         then (Some example_event, None)
         else if sig_header = Some ''good'' \<and> secret = ''whsec'' \<and> payload = ''inv''
         then (Some example_other_event, None)
         else (None, Some ''No signatures found matching the expected signature for payload'')),
      pi_to_dict = (\<lambda>p. (''id'', pi_id p) # pi_fields p)\<rparr>"

definition failing_provider :: stripewrapper where
  "failing_provider = working_provider\<lparr>create_customer := (\<lambda>a. (None, Some ''Connection refused''))\<rparr>"

definition signed_request :: "string \<Rightarrow> request" where
  "signed_request payload = \<lparr>body = payload, META = [''HTTP_STRIPE_SIGNATURE'' \<mapsto> ''good'']\<rparr>"

definition unsigned_request :: request where
  "unsigned_request = \<lparr>body = ''pi'', META = Map.empty\<rparr>"

definition open_ended_subscription :: SubscriptionInformation where
  "open_ended_subscription =
     \<lparr>sub_member = 1, sub_start = Some 0, sub_end = None, sub_tier = ''st''\<rparr>"

definition bounded_subscription :: SubscriptionInformation where
  "bounded_subscription =
     \<lparr>sub_member = 1, sub_start = Some 0, sub_end = Some 10, sub_tier = ''co''\<rparr>"

definition no_subscription_at_provider ::
  "alumni \<Rightarrow> SubscriptionInformation list
     \<Rightarrow> SubscriptionInformation option \<times> SubscriptionInformation list" where
  "no_subscription_at_provider a subs = (None, subs)"

section \<open>Properties of the tier catalogue\<close>

lemma STRIPE_ID_TO_TIER_dom:
  "dom (STRIPE_ID_TO_TIER cfg) =
     {''contributor-membership'', ''patron-membership'', ''starter-membership'',
      STRIPE_CONTRIBUTOR_PRODUCT_ID cfg, STRIPE_PATRON_PRODUCT_ID cfg,
      STRIPE_STARTER_PRODUCT_ID cfg}"
  by (auto simp: STRIPE_ID_TO_TIER_def dict_display_def STRIPE_ID_TO_TIER_items_def
      dom_map_of_conv_image_fst)

lemma STRIPE_ID_TO_TIER_ran:
  "STRIPE_ID_TO_TIER cfg k = Some t \<Longrightarrow> t = STARTER \<or> t = CONTRIBUTOR \<or> t = PATRON"
  by (auto simp: STRIPE_ID_TO_TIER_def dict_display_def STRIPE_ID_TO_TIER_items_def
      split: if_splits)

text \<open>
  Claim C7. \<open>get_tier_from_stripe_id\<close> is a total function that never raises: the
  mapping holds exactly the three legacy identifiers and the three configured product
  identifiers; an identifier of the mapping is answered with the tier code the mapping
  holds for it, which is one of \<open>st\<close>, \<open>co\<close>, \<open>pa\<close>; every configured product
  identifier and every legacy alias is answered with its own tier (an identifier that the
  configuration assigns a second time takes the entry written last in the dict display);
  every other identifier is answered with the sentinel \<open>Unknown\<close>.
\<close>

theorem get_tier_from_stripe_id_total:
  "dom (STRIPE_ID_TO_TIER cfg) =
     {''contributor-membership'', ''patron-membership'', ''starter-membership'',
      STRIPE_CONTRIBUTOR_PRODUCT_ID cfg, STRIPE_PATRON_PRODUCT_ID cfg,
      STRIPE_STARTER_PRODUCT_ID cfg}
   \<and> (stripe_id \<in> dom (STRIPE_ID_TO_TIER cfg) \<longrightarrow>
        STRIPE_ID_TO_TIER cfg stripe_id = Some (get_tier_from_stripe_id cfg stripe_id)
        \<and> get_tier_from_stripe_id cfg stripe_id \<in> {STARTER, CONTRIBUTOR, PATRON})
   \<and> (stripe_id \<notin> dom (STRIPE_ID_TO_TIER cfg) \<longrightarrow>
        get_tier_from_stripe_id cfg stripe_id = ''Unknown'')
   \<and> get_tier_from_stripe_id cfg (STRIPE_STARTER_PRODUCT_ID cfg) = STARTER
   \<and> (STRIPE_PATRON_PRODUCT_ID cfg \<noteq> STRIPE_STARTER_PRODUCT_ID cfg \<longrightarrow>
        get_tier_from_stripe_id cfg (STRIPE_PATRON_PRODUCT_ID cfg) = PATRON)
   \<and> (STRIPE_CONTRIBUTOR_PRODUCT_ID cfg \<noteq> STRIPE_PATRON_PRODUCT_ID cfg
        \<and> STRIPE_CONTRIBUTOR_PRODUCT_ID cfg \<noteq> STRIPE_STARTER_PRODUCT_ID cfg \<longrightarrow>
        get_tier_from_stripe_id cfg (STRIPE_CONTRIBUTOR_PRODUCT_ID cfg) = CONTRIBUTOR)
   \<and> (''starter-membership'' \<noteq> STRIPE_CONTRIBUTOR_PRODUCT_ID cfg
        \<and> ''starter-membership'' \<noteq> STRIPE_PATRON_PRODUCT_ID cfg \<longrightarrow>
        get_tier_from_stripe_id cfg ''starter-membership'' = STARTER)
   \<and> (''patron-membership'' \<noteq> STRIPE_CONTRIBUTOR_PRODUCT_ID cfg
        \<and> ''patron-membership'' \<noteq> STRIPE_STARTER_PRODUCT_ID cfg \<longrightarrow>
        get_tier_from_stripe_id cfg ''patron-membership'' = PATRON)
   \<and> (''contributor-membership'' \<noteq> STRIPE_PATRON_PRODUCT_ID cfg
        \<and> ''contributor-membership'' \<noteq> STRIPE_STARTER_PRODUCT_ID cfg \<longrightarrow>
        get_tier_from_stripe_id cfg ''contributor-membership'' = CONTRIBUTOR)"
proof -
  have known: "get_tier_from_stripe_id cfg stripe_id \<in> {STARTER, CONTRIBUTOR, PATRON}
      \<and> STRIPE_ID_TO_TIER cfg stripe_id = Some (get_tier_from_stripe_id cfg stripe_id)"
    if "stripe_id \<in> dom (STRIPE_ID_TO_TIER cfg)"
  proof -
    from that obtain t where t: "STRIPE_ID_TO_TIER cfg stripe_id = Some t"
      by blast
    with STRIPE_ID_TO_TIER_ran [OF t] show ?thesis
      by (auto simp: get_tier_from_stripe_id_def)
  qed
  have unknown: "get_tier_from_stripe_id cfg stripe_id = ''Unknown''"
    if "stripe_id \<notin> dom (STRIPE_ID_TO_TIER cfg)"
    using that by (simp add: get_tier_from_stripe_id_def domIff)
  have entries:
    "get_tier_from_stripe_id cfg (STRIPE_STARTER_PRODUCT_ID cfg) = STARTER"
    "STRIPE_PATRON_PRODUCT_ID cfg \<noteq> STRIPE_STARTER_PRODUCT_ID cfg \<Longrightarrow>
       get_tier_from_stripe_id cfg (STRIPE_PATRON_PRODUCT_ID cfg) = PATRON"
    "STRIPE_CONTRIBUTOR_PRODUCT_ID cfg \<noteq> STRIPE_PATRON_PRODUCT_ID cfg \<Longrightarrow>
       STRIPE_CONTRIBUTOR_PRODUCT_ID cfg \<noteq> STRIPE_STARTER_PRODUCT_ID cfg \<Longrightarrow>
       get_tier_from_stripe_id cfg (STRIPE_CONTRIBUTOR_PRODUCT_ID cfg) = CONTRIBUTOR"
    "''starter-membership'' \<noteq> STRIPE_CONTRIBUTOR_PRODUCT_ID cfg \<Longrightarrow>
       ''starter-membership'' \<noteq> STRIPE_PATRON_PRODUCT_ID cfg \<Longrightarrow>
       get_tier_from_stripe_id cfg ''starter-membership'' = STARTER"
    "''patron-membership'' \<noteq> STRIPE_CONTRIBUTOR_PRODUCT_ID cfg \<Longrightarrow>
       ''patron-membership'' \<noteq> STRIPE_STARTER_PRODUCT_ID cfg \<Longrightarrow>
       get_tier_from_stripe_id cfg ''patron-membership'' = PATRON"
    "''contributor-membership'' \<noteq> STRIPE_PATRON_PRODUCT_ID cfg \<Longrightarrow>
       ''contributor-membership'' \<noteq> STRIPE_STARTER_PRODUCT_ID cfg \<Longrightarrow>
       get_tier_from_stripe_id cfg ''contributor-membership'' = CONTRIBUTOR"
    by (auto simp: get_tier_from_stripe_id_def STRIPE_ID_TO_TIER_def dict_display_def
        STRIPE_ID_TO_TIER_items_def STARTER_def PATRON_def CONTRIBUTOR_def)
  from known unknown entries STRIPE_ID_TO_TIER_dom [of cfg] show ?thesis
    by blast
qed

theorem get_tier_from_stripe_id_total_witness:
  "''prod_pa'' \<in> dom (STRIPE_ID_TO_TIER example_settings)
   \<and> get_tier_from_stripe_id example_settings ''prod_pa'' = ''pa''
   \<and> get_tier_from_stripe_id example_settings ''prod_co'' = ''co''
   \<and> get_tier_from_stripe_id example_settings ''prod_st'' = ''st''
   \<and> get_tier_from_stripe_id example_settings ''contributor-membership'' = ''co''
   \<and> get_tier_from_stripe_id example_settings ''patron-membership'' = ''pa''
   \<and> get_tier_from_stripe_id example_settings ''starter-membership'' = ''st''"
  using get_tier_from_stripe_id_total [of example_settings "''prod_pa''"]
  by (simp add: example_settings_def STARTER_def PATRON_def CONTRIBUTOR_def)

section \<open>Properties of the login redirect\<close>




lemma scheme_prefix_colon:
  "list_all (\<lambda>c. \<not> url_delimiter c \<and> c \<noteq> CHR '':'') s \<Longrightarrow>
     scheme_prefix (s @ CHR '':'' # r) = s"
  by (simp add: scheme_prefix_def list_all_iff takeWhile_tail)




lemma has_scheme_shape:
  "has_scheme t =
     (\<exists>s r. t = s @ CHR '':'' # r \<and> s \<noteq> []
        \<and> list_all (\<lambda>c. \<not> url_delimiter c \<and> c \<noteq> CHR '':'') s)"
proof
  assume h: "has_scheme t"
  let ?p = "scheme_prefix t"
  let ?d = "drop (length ?p) t"
  from h have p: "?p \<noteq> []" and colon: "take 1 ?d = '':''"
    by (simp_all add: has_scheme_def startswith_def)
  from colon obtain r where d: "?d = CHR '':'' # r"
    by (cases ?d) simp_all
  have "t = take (length ?p) t @ ?d" by simp
  moreover have "take (length ?p) t = ?p"
    by (simp add: scheme_prefix_def takeWhile_eq_take [symmetric])
  ultimately have "t = ?p @ CHR '':'' # r" using d by simp
  moreover have "list_all (\<lambda>c. \<not> url_delimiter c \<and> c \<noteq> CHR '':'') ?p"
    by (auto simp: scheme_prefix_def list_all_iff dest: set_takeWhileD)
  ultimately show "\<exists>s r. t = s @ CHR '':'' # r \<and> s \<noteq> []
        \<and> list_all (\<lambda>c. \<not> url_delimiter c \<and> c \<noteq> CHR '':'') s"
    using p by blast
next
  assume "\<exists>s r. t = s @ CHR '':'' # r \<and> s \<noteq> []
        \<and> list_all (\<lambda>c. \<not> url_delimiter c \<and> c \<noteq> CHR '':'') s"
  then show "has_scheme t"
    by (auto simp: has_scheme_def scheme_prefix_colon startswith_def)
qed






text \<open>
  Every target has one of the four shapes the claim speaks of: after the white space in
  front it is a bare path, or \<open>scheme://host...\<close>, or \<open>//host...\<close>, or a scheme with no
  host.
\<close>

lemma host_split:
  "\<exists>h r. t = h @ r \<and> host_text h \<and> host_end r"
proof -
  let ?h = "takeWhile (\<lambda>c. \<not> url_delimiter c) t"
  let ?r = "dropWhile (\<lambda>c. \<not> url_delimiter c) t"
  have "t = ?h @ ?r" by simp
  moreover have "host_text ?h"
    by (auto simp: host_text_def list_all_iff dest: set_takeWhileD)
  moreover have "host_end ?r"
  proof (cases "?r = []")
    case True
    show ?thesis unfolding host_end_def True by simp
  next
    case False
    from hd_dropWhile [OF this] have "url_delimiter (hd ?r)" by simp
    with False show ?thesis
      unfolding host_end_def by (cases ?r) simp_all
  qed
  ultimately show ?thesis by blast
qed

lemma two_slashes_split:
  "two_slashes t \<Longrightarrow> \<exists>a b h r. t = a # b # h @ r \<and> is_slash a \<and> is_slash b
      \<and> host_text h \<and> host_end r"
proof -
  assume "two_slashes t"
  then obtain a b u where t: "t = a # b # u" and s: "is_slash a" "is_slash b"
    by (auto simp: two_slashes_def split: list.splits)
  from host_split [of u] obtain h r where "u = h @ r" "host_text h" "host_end r"
    by blast
  with t s show ?thesis by blast
qed

lemma every_target_has_a_shape:
  "\<exists>ws t. target = ws @ t \<and> all_space ws \<and> t = lstrip target
     \<and> ((\<not> has_scheme t \<and> \<not> two_slashes t)
        \<or> (\<exists>s a b h r. t = s @ CHR '':'' # a # b # h @ r \<and> scheme_text s \<and> is_slash a
              \<and> is_slash b \<and> host_text h \<and> host_end r)
        \<or> (\<exists>a b h r. t = a # b # h @ r \<and> is_slash a \<and> is_slash b \<and> host_text h \<and> host_end r)
        \<or> (\<exists>s r. t = s @ CHR '':'' # r \<and> scheme_text s \<and> \<not> two_slashes r))"
proof -
  define t where "t = lstrip target"
  define ws where "ws = takeWhile url_space target"
  let ?bare = "\<not> has_scheme t \<and> \<not> two_slashes t"
  let ?absolute = "\<exists>s a b h r. t = s @ CHR '':'' # a # b # h @ r \<and> scheme_text s \<and> is_slash a
              \<and> is_slash b \<and> host_text h \<and> host_end r"
  let ?relative = "\<exists>a b h r. t = a # b # h @ r \<and> is_slash a \<and> is_slash b \<and> host_text h
              \<and> host_end r"
  let ?hostless = "\<exists>s r. t = s @ CHR '':'' # r \<and> scheme_text s \<and> \<not> two_slashes r"
  have split: "target = ws @ t"
    by (simp add: lstrip_def t_def ws_def)
  have ws: "all_space ws"
    by (auto simp: all_space_def list_all_iff ws_def dest: set_takeWhileD)
  have front: "\<not> url_space (hd t)" if "t \<noteq> []"
    using that hd_dropWhile [of url_space target] by (simp add: lstrip_def t_def)
  have shape: "?bare \<or> ?absolute \<or> ?relative \<or> ?hostless"
  proof (cases "has_scheme t")
    case True
    then obtain s u where u: "t = s @ CHR '':'' # u" and s: "s \<noteq> []"
      "list_all (\<lambda>c. \<not> url_delimiter c \<and> c \<noteq> CHR '':'') s"
      unfolding has_scheme_shape by blast
    from u s(1) have "hd t = hd s" by simp
    moreover from u have "t \<noteq> []" by simp
    ultimately have "\<not> url_space (hd s)" using front by simp
    with s have scheme: "scheme_text s" by (simp add: scheme_text_def)
    show ?thesis
    proof (cases "two_slashes u")
      case True
      from two_slashes_split [OF this] obtain a b h r where
        parts: "u = a # b # h @ r" "is_slash a" "is_slash b" "host_text h" "host_end r"
        by blast
      from u parts(1) have "t = s @ CHR '':'' # a # b # h @ r" by simp
      with scheme parts(2-5) have ?absolute by blast
      then show ?thesis by (rule disjI1 [THEN disjI2])
    next
      case False
      with u scheme have ?hostless by blast
      then show ?thesis by (rule disjI2 [THEN disjI2, THEN disjI2])
    qed
  next
    case no_scheme: False
    show ?thesis
    proof (cases "two_slashes t")
      case True
      from two_slashes_split [OF this] have ?relative .
      then show ?thesis by (rule disjI1 [THEN disjI2, THEN disjI2])
    next
      case False
      with no_scheme have ?bare by simp
      then show ?thesis by (rule disjI1)
    qed
  qed
  from split ws shape show ?thesis
    unfolding t_def by (intro exI conjI) (assumption | rule refl)+
qed






lemma login_redirect_target_test_inputs:
  "login_redirect_target example_settings example_app (Some ''https://evil.com/phishing'') = ''/''"
  "login_redirect_target example_settings example_app (Some ''http:evil.com'') = ''/''"
  "login_redirect_target example_settings example_app (Some ''javascript:alert(1)'') = ''/''"
  "login_redirect_target example_settings example_app (Some '''') = ''/''"
  by (simp_all add: login_redirect_target_def resolve_reference_def lstrip_def url_space_def
      has_scheme_def scheme_prefix_def url_delimiter_def is_slash_def startswith_def
      two_slashes_def authority_def same_origin_def ascii_lower_def example_app_def
      example_settings_def)

section \<open>Properties of the invoice table\<close>

text \<open>
  The text \<open>str\<close> gives for a natural number is its decimal numeral: it reads back as
  the number, holds digits only, and has no leading zero.
\<close>

lemma below_ten: "(d::nat) < 10 \<Longrightarrow> d \<in> {0, 1, 2, 3, 4, 5, 6, 7, 8, 9}"
  by auto

lemma digit_value_digit_char: "d < 10 \<Longrightarrow> digit_value (digit_char d) = d"
  using below_ten [of d] by (auto simp: digit_value_def digit_char_def upt_rec)

lemma digit_char_is_digit: "digit_char d \<in> set ''0123456789''"
proof -
  have "d mod 10 < 10" by simp
  from below_ten [OF this] show ?thesis
    by (auto simp: digit_char_def)
qed

lemma digit_char_zero: "d < 10 \<Longrightarrow> 0 < d \<Longrightarrow> digit_char d \<noteq> CHR ''0''"
  using below_ten [of d] by (auto simp: digit_char_def)

lemma decimal_value_snoc: "decimal_value (s @ [c]) = 10 * decimal_value s + digit_value c"
  by (simp add: decimal_value_def)

lemma decimal_value_str_nat: "decimal_value (str_nat n) = n"
proof (induction n rule: str_nat.induct)
  case (1 n)
  show ?case
  proof (cases "n < 10")
    case True
    then show ?thesis
      by (subst str_nat.simps) (simp add: decimal_value_def digit_value_digit_char)
  next
    case False
    with "1" have "decimal_value (str_nat (n div 10)) = n div 10" by simp
    with False show ?thesis
      by (subst str_nat.simps) (simp add: decimal_value_snoc digit_value_digit_char)
  qed
qed

lemma str_nat_digits: "set (str_nat n) \<subseteq> set ''0123456789''"
proof (induction n rule: str_nat.induct)
  case (1 n)
  show ?case
  proof (cases "n < 10")
    case True
    with digit_char_is_digit [of n] show ?thesis
      by (subst str_nat.simps) simp
  next
    case False
    with "1" have "set (str_nat (n div 10)) \<subseteq> set ''0123456789''" by simp
    with False digit_char_is_digit [of "n mod 10"] show ?thesis
      by (subst str_nat.simps) simp
  qed
qed

lemma str_nat_nonempty: "str_nat n \<noteq> []"
  by (subst str_nat.simps) simp

lemma str_nat_no_leading_zero: "0 < n \<Longrightarrow> hd (str_nat n) \<noteq> CHR ''0''"
proof (induction n rule: str_nat.induct)
  case (1 n)
  show ?case
  proof (cases "n < 10")
    case True
    with "1.prems" digit_char_zero [of n] show ?thesis
      by (subst str_nat.simps) simp
  next
    case False
    then have "0 < n div 10" by (simp add: div_greater_zero_iff)
    with "1.IH" False have "hd (str_nat (n div 10)) \<noteq> CHR ''0''" by simp
    with False show ?thesis
      by (subst str_nat.simps) (simp add: str_nat_nonempty)
  qed
qed

lemma str_nat_examples:
  "str_nat 0 = ''0''" "str_nat (Suc 0) = ''1''" "str_nat 3 = ''3''" "str_nat 12 = ''12''"
  by (simp_all add: str_nat.simps digit_char_def)

lemma format_description_subscription:
  assumes "description line = None" and "line_type line = ''subscription''"
  shows "format_description lib line =
           (case fromtimestamp lib (period_start (period line)) of
              Inl err \<Rightarrow> Inl err
            | Inr ds \<Rightarrow>
                (case fromtimestamp lib (period_end (period line)) of
                   Inl err \<Rightarrow> Inl err
                 | Inr de \<Rightarrow>
                     Inr (str_int (quantity line) @ '' x '' @ plan_name (plan line) @ '' (''
                          @ date_format lib ds ''DATE_FORMAT'' @ '' - ''
                          @ date_format lib de ''DATE_FORMAT'' @ '')'')))"
  using assms
  by (simp add: format_description_def format_datetime_def split: sum.splits)

text \<open>
  Claim C9, as stated, fails: a subscription line without a description whose period
  ends at an epoch \<open>datetime.fromtimestamp\<close> cannot convert makes \<open>format_description\<close>
  raise, although the line is a subscription line.
\<close>

theorem format_description_raises_on_subscription_counterexample:
  "description example_late_line = None
   \<and> line_type example_late_line = ''subscription''
   \<and> format_description example_date_library example_late_line =
       Inl (ValueError ''year 10000 is out of range'')"
  by (simp add: format_description_def format_datetime_def example_late_line_def
      example_subscription_line_def example_date_library_def)

text \<open>
  Claim C9, amended. A line with a description is answered with that description
  unchanged. A line without one that is a subscription line has the start and the end of
  its period converted by \<open>datetime.fromtimestamp\<close>, in that order; an error of the
  conversion is raised as it is, and otherwise the answer is
  \<open>{quantity} x {plan name} ({period start date} - {period end date})\<close>, the quantity
  written as its decimal numeral (a minus sign when negative, digits that read back as
  the number, no leading zero). A line without a description that is not a subscription
  line raises \<open>Non-subscription without description\<close>. When both epochs of the period
  can be converted, \<open>format_description\<close> raises if and only if the line has no
  description and is not a subscription line.
\<close>

theorem format_description_cases:
  "(description line = Some d \<longrightarrow> format_description lib line = Inr d)
   \<and> (description line = None \<and> line_type line = ''subscription''
        \<and> fromtimestamp lib (period_start (period line)) = Inr ds
        \<and> fromtimestamp lib (period_end (period line)) = Inr de \<longrightarrow>
        format_description lib line =
          Inr (str_int (quantity line) @ '' x '' @ plan_name (plan line) @ '' (''
               @ date_format lib ds ''DATE_FORMAT'' @ '' - ''
               @ date_format lib de ''DATE_FORMAT'' @ '')''))
   \<and> (description line = None \<and> line_type line = ''subscription''
        \<and> fromtimestamp lib (period_start (period line)) = Inl err \<longrightarrow>
        format_description lib line = Inl err)
   \<and> (description line = None \<and> line_type line = ''subscription''
        \<and> fromtimestamp lib (period_start (period line)) = Inr ds
        \<and> fromtimestamp lib (period_end (period line)) = Inl err \<longrightarrow>
        format_description lib line = Inl err)
   \<and> (description line = None \<and> line_type line \<noteq> ''subscription'' \<longrightarrow>
        format_description lib line =
          Inl (Exception ''Non-subscription without description''))
   \<and> ((\<forall>e. fromtimestamp lib (period_start (period line)) \<noteq> Inl e)
        \<and> (\<forall>e. fromtimestamp lib (period_end (period line)) \<noteq> Inl e) \<longrightarrow>
        (\<exists>exn. format_description lib line = Inl exn) =
        (description line = None \<and> line_type line \<noteq> ''subscription''))
   \<and> str_int (quantity line) =
        (if quantity line < 0 then ''-'' else []) @ str_nat (nat \<bar>quantity line\<bar>)
   \<and> decimal_value (str_nat (nat \<bar>quantity line\<bar>)) = nat \<bar>quantity line\<bar>
   \<and> set (str_nat (nat \<bar>quantity line\<bar>)) \<subseteq> set ''0123456789''
   \<and> (quantity line \<noteq> 0 \<longrightarrow> hd (str_nat (nat \<bar>quantity line\<bar>)) \<noteq> CHR ''0'')
   \<and> str_nat 0 = ''0''"
proof -
  have described: "format_description lib line = Inr d" if "description line = Some d"
    using that by (simp add: format_description_def)
  have rendered: "format_description lib line =
          Inr (str_int (quantity line) @ '' x '' @ plan_name (plan line) @ '' (''
               @ date_format lib ds ''DATE_FORMAT'' @ '' - ''
               @ date_format lib de ''DATE_FORMAT'' @ '')'')"
    if "description line = None" "line_type line = ''subscription''"
      "fromtimestamp lib (period_start (period line)) = Inr ds"
      "fromtimestamp lib (period_end (period line)) = Inr de"
    using format_description_subscription [OF that(1,2), of lib] that(3,4) by simp
  have start_error: "format_description lib line = Inl err"
    if "description line = None" "line_type line = ''subscription''"
      "fromtimestamp lib (period_start (period line)) = Inl err"
    using format_description_subscription [OF that(1,2), of lib] that(3) by simp
  have end_error: "format_description lib line = Inl err"
    if "description line = None" "line_type line = ''subscription''"
      "fromtimestamp lib (period_start (period line)) = Inr ds"
      "fromtimestamp lib (period_end (period line)) = Inl err"
    using format_description_subscription [OF that(1,2), of lib] that(3,4) by simp
  have missing: "format_description lib line =
          Inl (Exception ''Non-subscription without description'')"
    if "description line = None" "line_type line \<noteq> ''subscription''"
    using that by (simp add: format_description_def)
  have exactly: "(\<exists>exn. format_description lib line = Inl exn) =
        (description line = None \<and> line_type line \<noteq> ''subscription'')"
    if "\<forall>e. fromtimestamp lib (period_start (period line)) \<noteq> Inl e"
      "\<forall>e. fromtimestamp lib (period_end (period line)) \<noteq> Inl e"
  proof (cases "description line")
    case (Some given)
    then show ?thesis by (simp add: format_description_def)
  next
    case None
    show ?thesis
    proof (cases "line_type line = ''subscription''")
      case True
      from that obtain s0 e0 where
        "fromtimestamp lib (period_start (period line)) = Inr s0"
        "fromtimestamp lib (period_end (period line)) = Inr e0"
        by (metis sum.exhaust)
      with format_description_subscription [OF None True, of lib] True show ?thesis
        by simp
    next
      case False
      with missing [OF None] None show ?thesis by simp
    qed
  qed
  have sign: "str_int (quantity line) =
        (if quantity line < 0 then ''-'' else []) @ str_nat (nat \<bar>quantity line\<bar>)"
    by (simp add: str_int_def)
  have lead: "hd (str_nat (nat \<bar>quantity line\<bar>)) \<noteq> CHR ''0''" if "quantity line \<noteq> 0"
    using that by (intro str_nat_no_leading_zero) simp
  from described rendered start_error end_error missing exactly sign lead
    decimal_value_str_nat [of "nat \<bar>quantity line\<bar>"] str_nat_digits [of "nat \<bar>quantity line\<bar>"]
    str_nat_examples(1)
  show ?thesis
    by blast
qed

theorem format_description_cases_witness:
  "format_description example_date_library
       (example_subscription_line\<lparr>description := Some ''Donation''\<rparr>) = Inr ''Donation''
   \<and> format_description example_date_library example_subscription_line
     = Inr ''1 x Patron (Jan. 1, 1970 - Jan. 31, 1970)''
   \<and> format_description example_date_library (example_subscription_line\<lparr>quantity := 12\<rparr>)
     = Inr ''12 x Patron (Jan. 1, 1970 - Jan. 31, 1970)''
   \<and> format_description example_date_library (example_subscription_line\<lparr>quantity := - 3\<rparr>)
     = Inr ''-3 x Patron (Jan. 1, 1970 - Jan. 31, 1970)''
   \<and> format_description example_date_library example_late_line
     = Inl (ValueError ''year 10000 is out of range'')
   \<and> format_description example_date_library example_item_line
     = Inl (Exception ''Non-subscription without description'')"
  using format_description_cases
      [of "example_subscription_line\<lparr>description := Some ''Donation''\<rparr>" "''Donation''"
        example_date_library]
    format_description_cases [of example_subscription_line d example_date_library 0 2592000]
    format_description_cases
      [of "example_subscription_line\<lparr>quantity := 12\<rparr>" d example_date_library 0 2592000]
    format_description_cases
      [of "example_subscription_line\<lparr>quantity := - 3\<rparr>" d example_date_library 0 2592000]
    format_description_cases
      [of example_late_line d example_date_library 0 de "ValueError ''year 10000 is out of range''"]
    format_description_cases [of example_item_line d example_date_library]
  by (simp add: example_subscription_line_def example_item_line_def example_late_line_def
      example_date_library_def str_nat_examples)

section \<open>Properties of tier selection\<close>

text \<open>
  Claim C10. When the provider's customer creation returns an error, \<open>form_valid\<close>
  attaches the fixed message (not the provider's text) to the form under no field and
  returns \<open>None\<close>; no membership row and no subscription row is stored: the tables of
  the world are as before, and only the call to the provider is added to the trace.
\<close>

theorem SignupView_form_valid_provider_error:
  "snd (create_customer sw a) = Some e \<longrightarrow>
     SignupView_form_valid sw now a f w =
       (None,
        f\<lparr>form_errors := form_errors f @ [(None, provider_error_message)]\<rparr>,
        w\<lparr>provider_calls := provider_calls w @ [CreateCustomer a]\<rparr>)
     \<and> memberships (snd (snd (SignupView_form_valid sw now a f w))) = memberships w
     \<and> subscriptions (snd (snd (SignupView_form_valid sw now a f w))) = subscriptions w
     \<and> payment_intents (snd (snd (SignupView_form_valid sw now a f w))) = payment_intents w"
  by (cases "create_customer sw a") (simp add: SignupView_form_valid_def add_error_def)

theorem SignupView_form_valid_provider_error_witness:
  "snd (create_customer failing_provider 1) = Some ''Connection refused''
   \<and> SignupView_form_valid failing_provider 100 1 example_form empty_world =
       (None,
        \<lparr>form_tier = ''st'', form_errors = [(None, provider_error_message)]\<rparr>,
        empty_world\<lparr>provider_calls := [CreateCustomer 1]\<rparr>)"
  using SignupView_form_valid_provider_error
    [of failing_provider 1 "''Connection refused''" 100 example_form empty_world]
  by (simp add: failing_provider_def working_provider_def example_form_def empty_world_def)

text \<open>
  Claim C2, as stated, fails: for a user who selects the starter tier, \<open>form_valid\<close>
  first asks the provider to create the customer, so a provider call is made; and when
  that call fails no subscription record is created.
\<close>

theorem SignupView_form_valid_starter_counterexample:
  "form_tier example_form = STARTER
   \<and> provider_calls empty_world = []
   \<and> provider_calls (snd (snd (SignupView_form_valid working_provider 100 1 example_form
        empty_world))) = [CreateCustomer 1]
   \<and> subscriptions (snd (snd (SignupView_form_valid failing_provider 100 1 example_form
        empty_world))) = []"
  by (simp add: SignupView_form_valid_def failing_provider_def working_provider_def
      example_form_def empty_world_def STARTER_def create_starter_subscription_def
      add_error_def Let_def)

text \<open>
  Claim C2, amended. For a user who selects the starter tier, \<open>form_valid\<close> makes one
  provider call, the customer creation it makes for every tier; when that call returns
  no error, the membership is stored with the customer, one subscription record of the
  starter tier for the user is created in the same call and is active at that moment,
  and no other provider call (checkout, synchronisation) is made.
\<close>

theorem SignupView_form_valid_starter:
  "form_tier f = STARTER \<and> create_customer sw a = (customer, None) \<longrightarrow>
     fst (SignupView_form_valid sw now a f w) =
       Some \<lparr>mem_member = a, mem_tier = STARTER, mem_customer = customer\<rparr>
     \<and> memberships (snd (snd (SignupView_form_valid sw now a f w))) =
         memberships w @ [\<lparr>mem_member = a, mem_tier = STARTER, mem_customer = customer\<rparr>]
     \<and> subscriptions (snd (snd (SignupView_form_valid sw now a f w))) =
         subscriptions w
         @ [\<lparr>sub_member = a, sub_start = Some now, sub_end = None, sub_tier = STARTER\<rparr>]
     \<and> is_active now \<lparr>sub_member = a, sub_start = Some now, sub_end = None, sub_tier = STARTER\<rparr>
     \<and> provider_calls (snd (snd (SignupView_form_valid sw now a f w))) =
         provider_calls w @ [CreateCustomer a]"
  by (simp add: SignupView_form_valid_def create_starter_subscription_def is_active_def
      Let_def)

theorem SignupView_form_valid_starter_witness:
  "form_tier example_form = STARTER
   \<and> create_customer working_provider 1 = (Some ''cus_1'', None)
   \<and> subscriptions (snd (snd (SignupView_form_valid working_provider 100 1 example_form
        empty_world))) =
       [\<lparr>sub_member = 1, sub_start = Some 100, sub_end = None, sub_tier = ''st''\<rparr>]
   \<and> provider_calls (snd (snd (SignupView_form_valid working_provider 100 1 example_form
        empty_world))) = [CreateCustomer 1]"
  using SignupView_form_valid_starter
    [of example_form working_provider 1 "Some ''cus_1''" 100 empty_world]
  by (simp add: working_provider_def example_form_def empty_world_def STARTER_def)

section \<open>Properties of the subscription setup\<close>

lemma is_active_iff:
  "is_active now s =
     (\<exists>st. sub_start s = Some st \<and> st \<le> now
        \<and> (sub_end s = None \<or> (\<exists>en. sub_end s = Some en \<and> now \<le> en)))"
  by (auto simp: is_active_def split: option.splits)

lemma filter_start_lte_end_gte_iff:
  "filter_start_lte_end_gte now s =
     (\<exists>st en. sub_start s = Some st \<and> sub_end s = Some en \<and> st \<le> now \<and> now \<le> en)"
  by (auto simp: filter_start_lte_end_gte_def split: option.splits)

lemma should_setup_component_local_window:
  assumes "s \<in> set (subscriptions w)" and "sub_member s = a"
    and "sub_start s = Some st" and "sub_end s = Some en" and "st \<le> now" and "now \<le> en"
  shows "should_setup_component sync now a w = (False, w)"
proof -
  from assms have "filter_start_lte_end_gte now s"
    by (simp add: filter_start_lte_end_gte_def)
  with assms(1,2)
  have "list_ex (\<lambda>s. sub_member s = a \<and> filter_start_lte_end_gte now s) (subscriptions w)"
    by (auto simp: list_ex_iff)
  then show ?thesis
    by (simp add: should_setup_component_def)
qed

lemma should_setup_component_syncs_once:
  assumes "\<not> list_ex (\<lambda>s. sub_member s = a \<and> filter_start_lte_end_gte now s) (subscriptions w)"
  shows "provider_calls (snd (should_setup_component sync now a w)) =
           provider_calls w @ [SyncFromStripe a]"
    and "fst (should_setup_component sync now a w) =
           (case fst (sync a (subscriptions w)) of None \<Rightarrow> True | Some s \<Rightarrow> \<not> is_active now s)"
  using assms
  by (auto simp: should_setup_component_def sync_from_stripe_def split: prod.splits option.splits)

text \<open>
  Claim C3 against the code. A membership whose only local record is open-ended
  (\<open>start\<close> in the past, \<open>end\<close> null) is active in the claim's sense, yet the query
  \<open>filter(start__lte=now, end__gte=now)\<close> does not match it: \<open>should_setup_component\<close>
  calls the provider synchronisation, and with no subscription at the provider it
  returns \<open>True\<close>. A record with both bounds set is found locally, with no call.
\<close>

theorem should_setup_component_open_ended:
  "is_active 5 open_ended_subscription
   \<and> sub_member open_ended_subscription = 1
   \<and> should_setup_component no_subscription_at_provider 5 1
        (empty_world\<lparr>subscriptions := [open_ended_subscription]\<rparr>) =
       (True, empty_world\<lparr>subscriptions := [open_ended_subscription],
                           provider_calls := [SyncFromStripe 1]\<rparr>)
   \<and> should_setup_component no_subscription_at_provider 5 1
        (empty_world\<lparr>subscriptions := [bounded_subscription]\<rparr>) =
       (False, empty_world\<lparr>subscriptions := [bounded_subscription]\<rparr>)"
  by (simp add: should_setup_component_def sync_from_stripe_def is_active_def
      filter_start_lte_end_gte_def open_ended_subscription_def bounded_subscription_def
      no_subscription_at_provider_def empty_world_def)

section \<open>Properties of the webhook\<close>

lemma upsert_map_filter:
  "filter (\<lambda>r. fst r = sid) (map (\<lambda>r. if fst r = sid then (sid, d) else r) rows) =
     map (\<lambda>r. (sid, d)) (filter (\<lambda>r. fst r = sid) rows)"
  by (induction rows) auto

lemma upsert_map_absent:
  "filter (\<lambda>r. fst r = sid) rows = [] \<Longrightarrow>
     map (\<lambda>r. if fst r = sid then (sid, d) else r) rows = rows"
  by (induction rows) (auto split: if_splits)

lemma upsert_map_twice:
  "map (\<lambda>r. if fst r = sid then (sid, d) else r)
     (map (\<lambda>r. if fst r = sid then (sid, d) else r) rows) =
   map (\<lambda>r. if fst r = sid then (sid, d) else r) rows"
  by (induction rows) auto

lemma upsert_map_keys:
  "map fst (map (\<lambda>r. if fst r = sid then (sid, d) else r) rows) = map fst rows"
  by (induction rows) auto

text \<open>
  With at most one row of the key in the table, \<open>update_or_create\<close> succeeds, leaves
  exactly one row of the key, holding the new snapshot, and a second call with the same
  arguments changes nothing.
\<close>

lemma update_or_create_upsert:
  assumes "length (filter (\<lambda>r. fst r = sid) rows) \<le> 1"
  shows "\<exists>rows'. update_or_create sid d rows = Inr rows'
           \<and> filter (\<lambda>r. fst r = sid) rows' = [(sid, d)]
           \<and> update_or_create sid d rows' = Inr rows'"
proof (cases "filter (\<lambda>r. fst r = sid) rows")
  case Nil
  let ?rows' = "rows @ [(sid, d)]"
  have first: "update_or_create sid d rows = Inr ?rows'"
    using Nil by (simp add: update_or_create_def)
  have one: "filter (\<lambda>r. fst r = sid) ?rows' = [(sid, d)]"
    using Nil by simp
  have "update_or_create sid d ?rows' =
          Inr (map (\<lambda>r. if fst r = sid then (sid, d) else r) ?rows')"
    unfolding update_or_create_def one by simp
  then have "update_or_create sid d ?rows' = Inr ?rows'"
    using upsert_map_absent [OF Nil, of d] by simp
  with first one show ?thesis
    by blast
next
  case (Cons r rest)
  with assms have single: "filter (\<lambda>r. fst r = sid) rows = [r]"
    by simp
  let ?rows' = "map (\<lambda>r. if fst r = sid then (sid, d) else r) rows"
  have first: "update_or_create sid d rows = Inr ?rows'"
    using single by (simp add: update_or_create_def)
  have one: "filter (\<lambda>r. fst r = sid) ?rows' = [(sid, d)]"
    unfolding upsert_map_filter single by simp
  have "update_or_create sid d ?rows' =
          Inr (map (\<lambda>r. if fst r = sid then (sid, d) else r) ?rows')"
    unfolding update_or_create_def one by simp
  then have "update_or_create sid d ?rows' = Inr ?rows'"
    by (simp only: upsert_map_twice)
  with first one show ?thesis
    by blast
qed

lemma update_or_create_keeps_key_unique:
  assumes "distinct (map fst rows)" and "update_or_create sid d rows = Inr rows'"
  shows "distinct (map fst rows')"
proof (cases "filter (\<lambda>r. fst r = sid) rows")
  case Nil
  then have "sid \<notin> fst ` set rows"
    by (auto simp: filter_empty_conv)
  with assms Nil show ?thesis
    by (auto simp: update_or_create_def)
next
  case (Cons r rest)
  note found = Cons
  show ?thesis
  proof (cases rest)
    case Nil
    with found assms(2)
    have "rows' = map (\<lambda>r. if fst r = sid then (sid, d) else r) rows"
      by (simp add: update_or_create_def)
    then have "map fst rows' = map fst rows"
      by (simp only: upsert_map_keys)
    with assms(1) show ?thesis
      by simp
  next
    case (Cons x xs)
    with found assms(2) show ?thesis
      by (simp add: update_or_create_def)
  qed
qed

lemma distinct_keys_at_most_one:
  "distinct (map fst rows) \<Longrightarrow> length (filter (\<lambda>r. fst r = sid) rows) \<le> 1"
  by (induction rows) (auto simp: filter_empty_conv image_iff)

lemma stripe_webhook_verified:
  assumes "make_stripe_event sw (body req) (META req ''HTTP_STRIPE_SIGNATURE'')
             (STRIPE_WEBHOOK_SECRET cfg) = (Some ev, err)"
    and "\<not> truthy err"
  shows "stripe_webhook sw cfg req w =
           (if startswith (ev_type ev) ''payment_intent.'' then
              (case update_or_create (pi_id (ev_object ev)) (pi_to_dict sw (ev_object ev))
                      (payment_intents w) of
                 Inl exn \<Rightarrow> Inl exn
               | Inr rows \<Rightarrow> Inr (HttpResponse, w\<lparr>payment_intents := rows\<rparr>))
            else Inr (HttpResponse, w))"
  using assms by (simp add: stripe_webhook_def Let_def)

text \<open>
  Claim C4. The webhook is an idempotent upsert keyed by the intent identifier: when a
  verified payment-intent event is delivered twice (to a table that holds at most one
  row of that identifier, as the key demands), both deliveries answer with success, the
  second leaves the world as the first left it, and the table then holds exactly one row
  of that identifier, whose snapshot is the one derived from the event's payment intent.
\<close>

theorem stripe_webhook_idempotent:
  assumes "make_stripe_event sw (body req) (META req ''HTTP_STRIPE_SIGNATURE'')
             (STRIPE_WEBHOOK_SECRET cfg) = (Some ev, err)"
    and "\<not> truthy err"
    and "startswith (ev_type ev) ''payment_intent.''"
    and "length (filter (\<lambda>r. fst r = pi_id (ev_object ev)) (payment_intents w)) \<le> 1"
  shows "\<exists>w1. stripe_webhook sw cfg req w = Inr (HttpResponse, w1)
           \<and> stripe_webhook sw cfg req w1 = Inr (HttpResponse, w1)
           \<and> filter (\<lambda>r. fst r = pi_id (ev_object ev)) (payment_intents w1) =
               [(pi_id (ev_object ev), pi_to_dict sw (ev_object ev))]"
proof -
  from update_or_create_upsert [OF assms(4), of "pi_to_dict sw (ev_object ev)"]
  obtain rows' where
    first: "update_or_create (pi_id (ev_object ev)) (pi_to_dict sw (ev_object ev))
              (payment_intents w) = Inr rows'"
    and one: "filter (\<lambda>r. fst r = pi_id (ev_object ev)) rows' =
              [(pi_id (ev_object ev), pi_to_dict sw (ev_object ev))]"
    and again: "update_or_create (pi_id (ev_object ev)) (pi_to_dict sw (ev_object ev)) rows' =
              Inr rows'"
    by blast
  let ?w1 = "w\<lparr>payment_intents := rows'\<rparr>"
  have "stripe_webhook sw cfg req w = Inr (HttpResponse, ?w1)"
    using stripe_webhook_verified [OF assms(1,2), of w] assms(3) first by simp
  moreover have "stripe_webhook sw cfg req ?w1 = Inr (HttpResponse, ?w1)"
    using stripe_webhook_verified [OF assms(1,2), of ?w1] assms(3) again by simp
  moreover have "filter (\<lambda>r. fst r = pi_id (ev_object ev)) (payment_intents ?w1) =
      [(pi_id (ev_object ev), pi_to_dict sw (ev_object ev))]"
    using one by simp
  ultimately show ?thesis
    by blast
qed

theorem stripe_webhook_idempotent_witness:
  "make_stripe_event working_provider (body (signed_request ''pi''))
       (META (signed_request ''pi'') ''HTTP_STRIPE_SIGNATURE'')
       (STRIPE_WEBHOOK_SECRET example_settings) = (Some example_event, None)
   \<and> \<not> truthy None
   \<and> startswith (ev_type example_event) ''payment_intent.''
   \<and> (\<exists>w1. stripe_webhook working_provider example_settings (signed_request ''pi'') empty_world
               = Inr (HttpResponse, w1)
          \<and> stripe_webhook working_provider example_settings (signed_request ''pi'') w1
               = Inr (HttpResponse, w1)
          \<and> filter (\<lambda>r. fst r = ''pi_1'') (payment_intents w1) =
               [(''pi_1'', [(''id'', ''pi_1''), (''status'', ''succeeded'')])])"
proof -
  have parsed: "make_stripe_event working_provider (body (signed_request ''pi''))
       (META (signed_request ''pi'') ''HTTP_STRIPE_SIGNATURE'')
       (STRIPE_WEBHOOK_SECRET example_settings) = (Some example_event, None)"
    by (simp add: working_provider_def signed_request_def example_settings_def)
  have no_error: "\<not> truthy None"
    by (simp add: truthy_def)
  have kind: "startswith (ev_type example_event) ''payment_intent.''"
    by (simp add: startswith_def example_event_def)
  have fresh: "length (filter (\<lambda>r. fst r = pi_id (ev_object example_event))
       (payment_intents empty_world)) \<le> 1"
    by (simp add: empty_world_def)
  have snap: "pi_id (ev_object example_event) = ''pi_1''"
    "pi_to_dict working_provider (ev_object example_event) =
       [(''id'', ''pi_1''), (''status'', ''succeeded'')]"
    by (simp_all add: example_event_def working_provider_def)
  from stripe_webhook_idempotent [OF parsed no_error kind fresh] parsed no_error kind
  show ?thesis
    unfolding snap by blast
qed

text \<open>
  Claim C5. When verification or parsing of the request fails, that is when
  \<open>make_stripe_event\<close> answers with an error that \<open>if error:\<close> takes as true, the
  webhook answers with the client error 400 and does nothing else: the error is
  printed, and no table of the world (payment intents, memberships, subscriptions) and
  no provider call is added or changed.
\<close>

theorem stripe_webhook_rejects_unverified:
  "truthy (snd (make_stripe_event sw (body req) (META req ''HTTP_STRIPE_SIGNATURE'')
             (STRIPE_WEBHOOK_SECRET cfg))) \<longrightarrow>
     stripe_webhook sw cfg req w =
       Inr (HttpResponseBadRequest,
            w\<lparr>stdout := stdout w
                 @ [str_of_error (snd (make_stripe_event sw (body req)
                      (META req ''HTTP_STRIPE_SIGNATURE'') (STRIPE_WEBHOOK_SECRET cfg)))]\<rparr>)
     \<and> status_code HttpResponseBadRequest = 400
     \<and> (\<forall>w'. stripe_webhook sw cfg req w = Inr (HttpResponseBadRequest, w') \<longrightarrow>
           payment_intents w' = payment_intents w \<and> memberships w' = memberships w
           \<and> subscriptions w' = subscriptions w \<and> provider_calls w' = provider_calls w)"
  by (cases "make_stripe_event sw (body req) (META req ''HTTP_STRIPE_SIGNATURE'')
        (STRIPE_WEBHOOK_SECRET cfg)")
    (auto simp: stripe_webhook_def status_code_def)

theorem stripe_webhook_rejects_unverified_witness:
  "truthy (snd (make_stripe_event working_provider (body unsigned_request)
       (META unsigned_request ''HTTP_STRIPE_SIGNATURE'') (STRIPE_WEBHOOK_SECRET example_settings)))
   \<and> stripe_webhook working_provider example_settings unsigned_request empty_world =
       Inr (HttpResponseBadRequest,
            empty_world\<lparr>stdout :=
              [''No signatures found matching the expected signature for payload'']\<rparr>)"
proof -
  have failed: "make_stripe_event working_provider (body unsigned_request)
       (META unsigned_request ''HTTP_STRIPE_SIGNATURE'') (STRIPE_WEBHOOK_SECRET example_settings) =
     (None, Some ''No signatures found matching the expected signature for payload'')"
    by (simp add: working_provider_def unsigned_request_def)
  then have true: "truthy (snd (make_stripe_event working_provider (body unsigned_request)
       (META unsigned_request ''HTTP_STRIPE_SIGNATURE'') (STRIPE_WEBHOOK_SECRET example_settings)))"
    by (simp add: truthy_def)
  from stripe_webhook_rejects_unverified
    [of working_provider unsigned_request example_settings empty_world] true
  show ?thesis
    by (simp add: failed str_of_error_def empty_world_def)
qed

text \<open>
  Claim C6. For a verified event whose type does not start with \<open>payment_intent.\<close> the
  webhook answers with success (200) and leaves the world, the payment intents with it,
  as it was; an event that does start with the prefix, and so is upserted, is answered
  with the same success response.
\<close>

theorem stripe_webhook_other_event:
  assumes "make_stripe_event sw (body req) (META req ''HTTP_STRIPE_SIGNATURE'')
             (STRIPE_WEBHOOK_SECRET cfg) = (Some ev, err)"
    and "\<not> truthy err"
  shows "(\<not> startswith (ev_type ev) ''payment_intent.'' \<longrightarrow>
            stripe_webhook sw cfg req w = Inr (HttpResponse, w))
         \<and> (startswith (ev_type ev) ''payment_intent.''
            \<and> length (filter (\<lambda>r. fst r = pi_id (ev_object ev)) (payment_intents w)) \<le> 1 \<longrightarrow>
            (\<exists>w'. stripe_webhook sw cfg req w = Inr (HttpResponse, w')))
         \<and> status_code HttpResponse = 200"
proof -
  have ignored: "stripe_webhook sw cfg req w = Inr (HttpResponse, w)"
    if "\<not> startswith (ev_type ev) ''payment_intent.''"
    using stripe_webhook_verified [OF assms, of w] that by simp
  have upserted: "\<exists>w'. stripe_webhook sw cfg req w = Inr (HttpResponse, w')"
    if "startswith (ev_type ev) ''payment_intent.''"
      and "length (filter (\<lambda>r. fst r = pi_id (ev_object ev)) (payment_intents w)) \<le> 1"
  proof -
    from update_or_create_upsert [OF that(2), of "pi_to_dict sw (ev_object ev)"]
    obtain rows' where "update_or_create (pi_id (ev_object ev)) (pi_to_dict sw (ev_object ev))
              (payment_intents w) = Inr rows'"
      by blast
    with stripe_webhook_verified [OF assms, of w] that(1) show ?thesis
      by simp
  qed
  from ignored upserted show ?thesis
    by (simp add: status_code_def)
qed

theorem stripe_webhook_other_event_witness:
  "make_stripe_event working_provider (body (signed_request ''inv''))
       (META (signed_request ''inv'') ''HTTP_STRIPE_SIGNATURE'')
       (STRIPE_WEBHOOK_SECRET example_settings) = (Some example_other_event, None)
   \<and> \<not> truthy None
   \<and> \<not> startswith (ev_type example_other_event) ''payment_intent.''
   \<and> stripe_webhook working_provider example_settings (signed_request ''inv'') empty_world
       = Inr (HttpResponse, empty_world)"
proof -
  have parsed: "make_stripe_event working_provider (body (signed_request ''inv''))
       (META (signed_request ''inv'') ''HTTP_STRIPE_SIGNATURE'')
       (STRIPE_WEBHOOK_SECRET example_settings) = (Some example_other_event, None)"
    by (simp add: working_provider_def signed_request_def example_settings_def)
  have no_error: "\<not> truthy None"
    by (simp add: truthy_def)
  have kind: "\<not> startswith (ev_type example_other_event) ''payment_intent.''"
    by (simp add: startswith_def example_other_event_def example_event_def)
  from stripe_webhook_other_event [OF parsed no_error, of empty_world] parsed no_error kind
  show ?thesis
    by blast
qed

lemma stripe_webhook_keeps_key_unique:
  assumes "distinct (map fst (payment_intents w))"
    and "stripe_webhook sw cfg req w = Inr (resp, w')"
  shows "distinct (map fst (payment_intents w'))"
  using assms update_or_create_keeps_key_unique
  by (auto simp: stripe_webhook_def Let_def split: prod.splits if_splits option.splits sum.splits)

section \<open>Properties of the invoice total\<close>

text \<open>
  Up to \<open>2 ^ 52\<close> minor units the float arithmetic of \<open>format_total\<close> is exact to two
  decimals: the binary64 quotient of the amount by 100, formatted with \<open>%0.2f\<close>, is the
  decimal text of the amount divided by 100.
\<close>

lemma bit_length_bound: "n < 2 ^ j \<Longrightarrow> bit_length n \<le> j"
proof (induction j arbitrary: n)
  case 0
  then show ?case by (simp add: bit_length.simps)
next
  case (Suc j)
  then have "n div 2 < 2 ^ j" by auto
  from Suc.IH [OF this] show ?case
    by (subst bit_length.simps) simp
qed

lemma bit_length_100: "bit_length 100 = 7"
  by (simp add: bit_length.simps)

lemma round_half_even_div_close:
  assumes "0 < b"
  shows "2 * \<bar>round_half_even_div a b * b - a\<bar> \<le> b"
proof -
  define q where "q = a div b"
  define r where "r = a mod b"
  have a: "a = q * b + r" by (simp add: q_def r_def)
  have r: "0 \<le> r" "r < b" using assms by (simp_all add: r_def)
  have "round_half_even_div a b = q \<and> 2 * r \<le> b \<or> round_half_even_div a b = q + 1 \<and> b \<le> 2 * r"
    unfolding round_half_even_div_def Let_def q_def [symmetric] r_def [symmetric]
    by auto
  then show ?thesis
  proof
    assume "round_half_even_div a b = q \<and> 2 * r \<le> b"
    with a r show ?thesis by simp
  next
    assume h: "round_half_even_div a b = q + 1 \<and> b \<le> 2 * r"
    then have "round_half_even_div a b * b - a = b - r"
      using a by (simp add: algebra_simps)
    with h r show ?thesis by simp
  qed
qed

lemma round_half_even_div_unique:
  assumes "0 < b" and "2 * \<bar>a - q * b\<bar> < b"
  shows "round_half_even_div a b = q"
proof (cases "0 \<le> a - q * b")
  case True
  define d where "d = a - q * b"
  have a: "a = b * q + d" by (simp add: d_def)
  from True assms have d: "0 \<le> d" "d < b" "2 * d < b" by (simp_all add: d_def)
  have "a div b = q" using a d(1,2) by (rule int_div_pos_eq)
  moreover have "a mod b = d" using a d(1,2) by (rule int_mod_pos_eq)
  ultimately show ?thesis using d(3)
    by (simp add: round_half_even_div_def Let_def)
next
  case False
  define d where "d = a - q * b + b"
  have a: "a = b * (q - 1) + d" by (simp add: d_def algebra_simps)
  from False assms have d: "0 \<le> d" "d < b" "b < 2 * d" by (simp_all add: d_def)
  have "a div b = q - 1" using a d(1,2) by (rule int_div_pos_eq)
  moreover have "a mod b = d" using a d(1,2) by (rule int_mod_pos_eq)
  ultimately show ?thesis using d(3)
    by (simp add: round_half_even_div_def Let_def)
qed

lemma nearest_double_100_small:
  assumes "0 < n" and "n < 2 ^ 52"
  shows "\<exists>e. e \<le> - 7
           \<and> nearest_double n 100 = (round_half_even_div (n * 2 ^ nat (- e)) 100, e)"
proof -
  from assms have "nat n < 2 ^ 52"
    by (simp add: nat_less_iff)
  then have "bit_length (nat n) \<le> 52"
    by (rule bit_length_bound)
  then have d: "int (bit_length (nat n)) - int (bit_length (nat 100)) \<le> 45"
    by (simp add: bit_length_100)
  define d where "d = int (bit_length (nat n)) - int (bit_length (nat 100))"
  define k where "k = (if (if 0 \<le> d then 100 * 2 ^ nat d \<le> n else 100 \<le> n * 2 ^ nat (- d))
                       then d else d - 1)"
  have "k \<le> 45" using d by (simp add: k_def d_def)
  then have e: "k - 52 \<le> - 7" by simp
  have "nearest_double n 100 = (round_half_even_div (n * 2 ^ nat (- (k - 52))) 100, k - 52)"
    unfolding nearest_double_def Let_def d_def [symmetric] k_def [symmetric]
    using e by simp
  with e show ?thesis by blast
qed

lemma format_0_2f_exact:
  assumes "0 < n" and "n < 2 ^ 52"
  shows "\<exists>m e. truediv_100 n = Inr (Double False m e)
           \<and> truediv_100 (- n) = Inr (Double True m e)
           \<and> format_0_2f (Double False m e) = decimal_2 (nat n)
           \<and> format_0_2f (Double True m e) = ''-'' @ decimal_2 (nat n)"
proof -
  from nearest_double_100_small [OF assms] obtain e where
    e: "e \<le> - 7" and nd: "nearest_double n 100 = (round_half_even_div (n * 2 ^ nat (- e)) 100, e)"
    by blast
  define P :: int where "P = 2 ^ nat (- e)"
  define m where "m = round_half_even_div (n * P) 100"
  from e have "(2::int) ^ 7 \<le> 2 ^ nat (- e)"
    by (intro power_increasing) simp_all
  then have P: "128 \<le> P" by (simp add: P_def)
  have "2 * \<bar>m * 100 - n * P\<bar> \<le> 100"
    unfolding m_def by (rule round_half_even_div_close) simp
  with P have "2 * \<bar>m * 100 - n * P\<bar> < P" by linarith
  with P have again: "round_half_even_div (m * 100) P = n"
    by (intro round_half_even_div_unique) simp_all
  have pos: "truediv_100 n = Inr (Double False m e)"
    using assms(1) e nd by (simp add: truediv_100_def m_def P_def)
  have neg: "truediv_100 (- n) = Inr (Double True m e)"
    using assms(1) e nd by (simp add: truediv_100_def m_def P_def)
  have "format_0_2f (Double b m e) = (if b then ''-'' else []) @ decimal_2 (nat n)" for b
    using e again by (simp add: format_0_2f_def decimal_2_def P_def Let_def)
  with pos neg show ?thesis by simp
qed

lemma format_total_usd_exact:
  assumes "0 < amount" and "amount < 2 ^ 52"
  shows "format_total amount ''usd'' = Inr (decimal_2 (nat amount) @ '' $'')"
    and "format_total (- amount) ''usd'' = Inr (''-'' @ decimal_2 (nat amount) @ '' $'')"
  using format_0_2f_exact [OF assms] by (auto simp: format_total_def)

lemma format_total_eur_exact:
  assumes "0 < amount" and "amount < 2 ^ 52"
  shows "format_total amount ''eur'' = Inr (decimal_2 (nat amount) @ '' '' @ eur_literal_suffix)"
  using format_0_2f_exact [OF assms] by (auto simp: format_total_def)

lemma format_total_unknown_currency:
  "cur \<noteq> ''eur'' \<Longrightarrow> cur \<noteq> ''usd'' \<Longrightarrow>
     format_total amount cur = Inl (Exception (''unknown currency '' @ cur))"
  by (simp add: format_total_def)

lemma decimal_2_4250: "decimal_2 4250 = ''42.50''"
  by (simp add: decimal_2_def str_nat.simps digit_char_def)

lemma decimal_2_999: "decimal_2 999 = ''9.99''"
  by (simp add: decimal_2_def str_nat.simps digit_char_def)

text \<open>
  Claim C8 against the code. For \<open>usd\<close> the total is the amount divided by 100 with two
  decimals and the suffix \<open>$\<close>, and any other currency code than \<open>eur\<close> and \<open>usd\<close>
  raises. For \<open>eur\<close> the suffix the code appends is not the euro sign: the format
  literal holds the three characters U+00E2, U+201A, U+00AC, so \<open>format_total(4250,
  "eur")\<close> is not \<open>42.50\<close> followed by a space and the euro sign.
\<close>

theorem format_total_eur_suffix:
  "format_total 4250 ''eur'' = Inr (''42.50 '' @ eur_literal_suffix)
   \<and> format_total 4250 ''eur'' \<noteq> Inr (''42.50 '' @ EURO_SIGN)
   \<and> eur_literal_suffix \<noteq> EURO_SIGN
   \<and> format_total 999 ''usd'' = Inr ''9.99 $''
   \<and> format_total 100 ''gbp'' = Inl (Exception ''unknown currency gbp'')"
proof -
  have eur: "format_total 4250 ''eur'' = Inr (''42.50 '' @ eur_literal_suffix)"
    using format_total_eur_exact [of 4250] by (simp add: decimal_2_4250)
  have usd: "format_total 999 ''usd'' = Inr ''9.99 $''"
    using format_total_usd_exact(1) [of 999] by (simp add: decimal_2_999)
  have gbp: "format_total 100 ''gbp'' = Inl (Exception ''unknown currency gbp'')"
    by (simp add: format_total_def)
  have differ: "eur_literal_suffix \<noteq> EURO_SIGN"
    by (simp add: eur_literal_suffix_def EURO_SIGN_def)
  from eur usd gbp differ show ?thesis
    by simp
qed

end
